theory Spec2Isabelle
  imports Complex_Main "HOL-Library.Multiset"
begin

section \<open>Python values, exceptions and keyword arguments\<close>

text \<open>
  The program is Python. Three files matter: \<^verbatim>\<open>template/protocol.py\<close> declares the
  message classes, \<^verbatim>\<open>neurons/validator.py\<close> fans a search intent out into a batch and
  ranks and rewards what comes back, \<^verbatim>\<open>neurons/miner.py\<close> answers a batch.

  A Python \<^verbatim>\<open>float\<close> is modelled as a real number (so there is no NaN and no rounding),
  a Python \<^verbatim>\<open>int\<close> as an integer. An exception is the left injection of a sum.
  A call to \<^verbatim>\<open>bt.logging\<close> only writes a log line; what the model keeps of it is the
  evaluation of its argument where that can raise.
\<close>

datatype pyval = VNone | VStr string | VInt int | VFloat real

datatype error = ValidationError | AttributeError | ValueError | IndexError | TypeError

type_synonym kwargs = "(string \<times> pyval) list"

definition bindE :: "error + 'a \<Rightarrow> ('a \<Rightarrow> error + 'b) \<Rightarrow> error + 'b" where
  "bindE m f = (case m of Inl e \<Rightarrow> Inl e | Inr x \<Rightarrow> f x)"

text \<open>Attribute access on an object: a name the object does not carry raises AttributeError.\<close>

definition getattr :: "(string \<times> pyval) list \<Rightarrow> string \<Rightarrow> error + pyval" where
  "getattr attrs name = (case map_of attrs name of None \<Rightarrow> Inl AttributeError | Some v \<Rightarrow> Inr v)"

section \<open>The protocol classes (template/protocol.py)\<close>

text \<open>
  The classes are pydantic models. \<^verbatim>\<open>Field(...)\<close> declares a required field: a
  constructor call that does not pass it raises ValidationError. \<^verbatim>\<open>Field(default=d)\<close>
  fills \<open>d\<close> in when the keyword is absent, \<^verbatim>\<open>ge\<close> and \<^verbatim>\<open>gt\<close> are bounds checked on the
  value, \<^verbatim>\<open>Optional\<close> admits \<^verbatim>\<open>None\<close>, and a keyword that names no declared field is
  ignored. Each helper below validates one keyword of one declared kind.
\<close>

definition required_str :: "kwargs \<Rightarrow> string \<Rightarrow> error + string" where
  "required_str kw name =
     (case map_of kw name of Some (VStr s) \<Rightarrow> Inr s | _ \<Rightarrow> Inl ValidationError)"

definition default_str :: "kwargs \<Rightarrow> string \<Rightarrow> string \<Rightarrow> error + string" where
  "default_str kw name d =
     (case map_of kw name of
        None \<Rightarrow> Inr d
      | Some (VStr s) \<Rightarrow> Inr s
      | Some _ \<Rightarrow> Inl ValidationError)"

definition optional_str :: "kwargs \<Rightarrow> string \<Rightarrow> string \<Rightarrow> error + string option" where
  "optional_str kw name d =
     (case map_of kw name of
        None \<Rightarrow> Inr (Some d)
      | Some VNone \<Rightarrow> Inr None
      | Some (VStr s) \<Rightarrow> Inr (Some s)
      | Some _ \<Rightarrow> Inl ValidationError)"

definition optional_literal ::
  "kwargs \<Rightarrow> string \<Rightarrow> string list \<Rightarrow> string \<Rightarrow> error + string option" where
  "optional_literal kw name lits d =
     (case map_of kw name of
        None \<Rightarrow> Inr (Some d)
      | Some VNone \<Rightarrow> Inr None
      | Some (VStr s) \<Rightarrow> (if s \<in> set lits then Inr (Some s) else Inl ValidationError)
      | Some _ \<Rightarrow> Inl ValidationError)"

definition optional_int_ge :: "kwargs \<Rightarrow> string \<Rightarrow> int \<Rightarrow> int \<Rightarrow> error + int option" where
  "optional_int_ge kw name lo d =
     (case map_of kw name of
        None \<Rightarrow> Inr (Some d)
      | Some VNone \<Rightarrow> Inr None
      | Some (VInt n) \<Rightarrow> (if lo \<le> n then Inr (Some n) else Inl ValidationError)
      | Some _ \<Rightarrow> Inl ValidationError)"

definition required_int_ge :: "kwargs \<Rightarrow> string \<Rightarrow> int \<Rightarrow> error + int" where
  "required_int_ge kw name lo =
     (case map_of kw name of
        Some (VInt n) \<Rightarrow> (if lo \<le> n then Inr n else Inl ValidationError)
      | _ \<Rightarrow> Inl ValidationError)"

definition required_float :: "kwargs \<Rightarrow> string \<Rightarrow> error + real" where
  "required_float kw name =
     (case map_of kw name of
        Some (VFloat x) \<Rightarrow> Inr x
      | Some (VInt n) \<Rightarrow> Inr (of_int n)
      | _ \<Rightarrow> Inl ValidationError)"

definition required_float_gt :: "kwargs \<Rightarrow> string \<Rightarrow> real \<Rightarrow> error + real" where
  "required_float_gt kw name lo =
     bindE (required_float kw name) (\<lambda>x. if lo < x then Inr x else Inl ValidationError)"

subsection \<open>FlightSearchRequest\<close>

text \<open>
  The declared fields, in the order of the class body. \<open>other_attrs\<close> holds whatever
  further attributes an instance carries; the class declares none, so the constructor
  leaves it empty. The code reads \<^verbatim>\<open>origin\<close>, \<^verbatim>\<open>originId\<close>, \<^verbatim>\<open>destination\<close>,
  \<^verbatim>\<open>destinationId\<close>, \<^verbatim>\<open>locale\<close> and \<^verbatim>\<open>limit\<close> of a request, none of which is declared:
  such a read is a lookup in \<open>other_attrs\<close>.
\<close>

record FlightSearchRequest =
  date :: string
  departure_airport_code :: string
  arrival_airport_code :: string
  cabinClass :: "string option"
  adults :: "int option"
  children :: "int option"
  infants :: "int option"
  market :: string
  currency :: "string option"
  other_attrs :: "(string \<times> pyval) list"

definition FlightSearchRequest_init :: "kwargs \<Rightarrow> error + FlightSearchRequest" where
  "FlightSearchRequest_init kw =
     bindE (required_str kw ''date'') (\<lambda>d.
     bindE (required_str kw ''departure_airport_code'') (\<lambda>dep.
     bindE (required_str kw ''arrival_airport_code'') (\<lambda>arr.
     bindE (optional_literal kw ''cabinClass''
              [''Economy'', ''Business'', ''First'', ''Premium_Economy''] ''Economy'') (\<lambda>cab.
     bindE (optional_int_ge kw ''adults'' 1 1) (\<lambda>ad.
     bindE (optional_int_ge kw ''children'' 0 0) (\<lambda>ch.
     bindE (optional_int_ge kw ''infants'' 0 0) (\<lambda>inf.
     bindE (default_str kw ''market'' ''US'') (\<lambda>mk.
     bindE (optional_str kw ''currency'' ''USD'') (\<lambda>cur.
       Inr \<lparr>date = d, departure_airport_code = dep, arrival_airport_code = arr,
            cabinClass = cab, adults = ad, children = ch, infants = inf,
            market = mk, currency = cur, other_attrs = []\<rparr>)))))))))"

subsection \<open>FlightSearchResponse\<close>

text \<open>
  The declared fields, and \<open>r_other_attrs\<close> for whatever further attributes an instance
  carries; the constructor leaves it empty. The validator reads \<^verbatim>\<open>uid\<close> of a response,
  which the class does not declare: that read is a lookup in \<open>r_other_attrs\<close>.
\<close>

record FlightSearchResponse =
  r_market :: string
  price :: real
  r_currency :: string
  departure_time :: string
  arrival_time :: string
  departure_city :: string
  arrival_city :: string
  stops :: int
  carrier :: string
  duration_duration :: real
  r_other_attrs :: "(string \<times> pyval) list"

definition FlightSearchResponse_init :: "kwargs \<Rightarrow> error + FlightSearchResponse" where
  "FlightSearchResponse_init kw =
     bindE (required_str kw ''market'') (\<lambda>mk.
     bindE (required_float kw ''price'') (\<lambda>p.
     bindE (required_str kw ''currency'') (\<lambda>cur.
     bindE (required_str kw ''departure_time'') (\<lambda>dpt.
     bindE (required_str kw ''arrival_time'') (\<lambda>art.
     bindE (required_str kw ''departure_city'') (\<lambda>dc.
     bindE (required_str kw ''arrival_city'') (\<lambda>ac.
     bindE (required_int_ge kw ''stops'' 0) (\<lambda>st.
     bindE (required_str kw ''carrier'') (\<lambda>ca.
     bindE (required_float_gt kw ''duration_duration'' 0) (\<lambda>du.
       Inr \<lparr>r_market = mk, price = p, r_currency = cur, departure_time = dpt,
            arrival_time = art, departure_city = dc, arrival_city = ac,
            stops = st, carrier = ca, duration_duration = du,
            r_other_attrs = []\<rparr>))))))))))"

subsection \<open>The batch classes\<close>

text \<open>
  \<^verbatim>\<open>dendrite\<close> is an attribute of the transport's base class: the caller's terminal
  information, absent or with an absent hotkey for an anonymous caller.
\<close>

record TerminalInfo =
  hotkey :: "string option"

record FlightSearchBatchRequest =
  queries :: "FlightSearchRequest list"
  dendrite :: "TerminalInfo option"

record FlightSearchBatchResponse =
  responses :: "FlightSearchResponse list list"

section \<open>The miner (neurons/miner.py)\<close>

text \<open>
  What the miner reads of itself: its API key (from the environment or the configuration,
  possibly none), the registry's hotkeys and validator permits (\<^verbatim>\<open>self.metagraph\<close>), and the
  two switches of \<^verbatim>\<open>self.config.blacklist\<close>.
\<close>

record Miner =
  skyscanner_api_key :: "string option"
  hotkeys :: "string list"
  validator_permit :: "bool list"
  allow_non_registered :: bool
  force_validator_permit :: bool

subsection \<open>Admission: Miner.blacklist\<close>

text \<open>\<^verbatim>\<open>list.index(x)\<close>: the first position of \<open>x\<close>, ValueError when \<open>x\<close> is not in the list.\<close>

fun list_index :: "'a list \<Rightarrow> 'a \<Rightarrow> error + nat" where
  "list_index [] x = Inl ValueError"
| "list_index (y # ys) x =
     (if y = x then Inr 0 else bindE (list_index ys x) (\<lambda>i. Inr (Suc i)))"

definition blacklist :: "Miner \<Rightarrow> FlightSearchBatchRequest \<Rightarrow> error + (bool \<times> string)" where
  "blacklist self synapse =
     (case dendrite synapse of
        None \<Rightarrow> Inr (True, ''Missing dendrite or hotkey'')
      | Some d \<Rightarrow>
         (case hotkey d of
            None \<Rightarrow> Inr (True, ''Missing dendrite or hotkey'')
          | Some hk \<Rightarrow>
             bindE (list_index (hotkeys self) hk) (\<lambda>uid.
               if \<not> allow_non_registered self \<and> hk \<notin> set (hotkeys self)
               then Inr (True, ''Unrecognized hotkey'')
               else if force_validator_permit self
               then (if uid < length (validator_permit self)
                     then (if \<not> validator_permit self ! uid
                           then Inr (True, ''Non-validator hotkey'')
                           else Inr (False, ''Hotkey recognized!''))
                     else Inl IndexError)
               else Inr (False, ''Hotkey recognized!''))))"

subsection \<open>Fulfilment: Miner.forward and Miner._mock_flight\<close>

text \<open>
  Python's truth value of an optional string (\<^verbatim>\<open>x or d\<close>, \<^verbatim>\<open>if x:\<close>): \<^verbatim>\<open>None\<close> and the
  empty string are false.
\<close>

definition truthy_str :: "string option \<Rightarrow> bool" where
  "truthy_str x = (case x of None \<Rightarrow> False | Some s \<Rightarrow> s \<noteq> [])"

definition or_str :: "string option \<Rightarrow> string \<Rightarrow> string" where
  "or_str x d = (case x of None \<Rightarrow> d | Some s \<Rightarrow> if s = [] then d else s)"

definition or_val :: "pyval \<Rightarrow> pyval \<Rightarrow> pyval" where
  "or_val x d =
     (if x = VNone \<or> x = VInt 0 \<or> x = VFloat 0 \<or> x = VStr [] then d else x)"

text \<open>
  The slice \<^verbatim>\<open>xs[:n]\<close>: the first \<open>n\<close> elements for \<open>n \<ge> 0\<close>, all but the last \<open>-n\<close> for
  a negative \<open>n\<close>, everything for \<^verbatim>\<open>None\<close>, TypeError for a bound that is no integer.
\<close>

definition py_take :: "'a list \<Rightarrow> int \<Rightarrow> 'a list" where
  "py_take xs n = (if 0 \<le> n then take (nat n) xs else take (nat (int (length xs) + n)) xs)"

definition slice_upto :: "'a list \<Rightarrow> pyval \<Rightarrow> error + 'a list" where
  "slice_upto xs bound =
     (case bound of
        VNone \<Rightarrow> Inr xs
      | VInt n \<Rightarrow> Inr (py_take xs n)
      | _ \<Rightarrow> Inl TypeError)"

text \<open>
  What \<^verbatim>\<open>_mock_flight\<close> takes from outside: the draw of \<^verbatim>\<open>random.uniform(100, 2000)\<close>
  and the two printed clock readings.
\<close>

record mock_draw =
  uniform_price :: real
  now_plus_5h :: string
  now_plus_10h :: string

definition mock_flight :: "mock_draw \<Rightarrow> FlightSearchRequest \<Rightarrow> error + FlightSearchResponse" where
  "mock_flight d req =
     bindE (getattr (other_attrs req) ''origin'') (\<lambda>origin.
     bindE (getattr (other_attrs req) ''destination'') (\<lambda>destination.
       FlightSearchResponse_init
         [(''market'', VStr (market req)),
          (''category'', VStr ''Cheapest''),
          (''price'', VFloat (uniform_price d)),
          (''currency'', VStr (or_str (currency req) ''USD'')),
          (''departure_time'', VStr (now_plus_5h d)),
          (''arrival_time'', VStr (now_plus_10h d)),
          (''departure_city'', origin),
          (''arrival_city'', destination),
          (''stops'', VInt 1),
          (''carrier'', VStr ''MockAir''),
          (''duration_days'', VFloat 0.5)]))"

text \<open>
  The pricing backend is outside the program. For one query it either raises a
  \<^verbatim>\<open>requests.RequestException\<close> (connection failure, timeout, HTTP error status) or
  answers with the list found under \<^verbatim>\<open>result.flights\<close> of the JSON body, empty when the
  body has none. Of one entry of that list the code reads the price, the two times, the
  stop count and the carrier, each possibly absent.
\<close>

record flight_item =
  fi_price :: "real option"
  fi_departure_time :: "string option"
  fi_arrival_time :: "string option"
  fi_stops :: "pyval option"
  fi_carrier :: "string option"

datatype backend_result = RequestException | Flights "flight_item list"

definition flight_response :: "FlightSearchRequest \<Rightarrow> flight_item \<Rightarrow> error + FlightSearchResponse" where
  "flight_response req flight =
     bindE (getattr (other_attrs req) ''origin'') (\<lambda>origin.
     bindE (getattr (other_attrs req) ''destination'') (\<lambda>destination.
       FlightSearchResponse_init
         [(''market'', VStr (market req)),
          (''category'', VStr ''Cheapest''),
          (''price'', VFloat (case fi_price flight of None \<Rightarrow> 0 | Some p \<Rightarrow> p)),
          (''currency'', VStr (or_str (currency req) ''USD'')),
          (''departure_time'',
             VStr (case fi_departure_time flight of None \<Rightarrow> [] | Some t \<Rightarrow> t)),
          (''arrival_time'',
             VStr (case fi_arrival_time flight of None \<Rightarrow> [] | Some t \<Rightarrow> t)),
          (''departure_city'', origin),
          (''arrival_city'', destination),
          (''stops'', (case fi_stops flight of None \<Rightarrow> VInt 0 | Some v \<Rightarrow> v)),
          (''carrier'',
             VStr (case fi_carrier flight of None \<Rightarrow> ''Skyscanner'' | Some c \<Rightarrow> c)),
          (''duration_days'', VFloat 1)]))"

fun flight_responses ::
  "FlightSearchRequest \<Rightarrow> flight_item list \<Rightarrow> error + FlightSearchResponse list" where
  "flight_responses req [] = Inr []"
| "flight_responses req (flight # rest) =
     bindE (flight_response req flight) (\<lambda>fsr.
     bindE (flight_responses req rest) (\<lambda>more. Inr (fsr # more)))"

text \<open>The keyword dictionary sent to the backend; building it reads six attributes.\<close>

definition query_params :: "FlightSearchRequest \<Rightarrow> error + kwargs" where
  "query_params req =
     bindE (getattr (other_attrs req) ''origin'') (\<lambda>origin.
     bindE (getattr (other_attrs req) ''originId'') (\<lambda>originId.
     bindE (getattr (other_attrs req) ''destination'') (\<lambda>destination.
     bindE (getattr (other_attrs req) ''destinationId'') (\<lambda>destinationId.
       Inr [(''origin'', origin), (''originId'', originId),
            (''destination'', destination), (''destinationId'', destinationId),
            (''date'', VStr (date req)), (''market'', VStr (market req))]))))"

text \<open>
  The body of the loop of \<^verbatim>\<open>forward\<close> for one query: the list of offers for that query.
  A mock flight is appended when there is no API key, when the request raises, and when
  the list is still empty at the end.
\<close>

definition forward_query ::
  "Miner \<Rightarrow> (kwargs \<Rightarrow> backend_result) \<Rightarrow> mock_draw \<Rightarrow> FlightSearchRequest
   \<Rightarrow> error + FlightSearchResponse list" where
  "forward_query self backend d req =
     bindE
       (if truthy_str (skyscanner_api_key self)
        then bindE (query_params req) (\<lambda>params.
               case backend params of
                 RequestException \<Rightarrow> bindE (mock_flight d req) (\<lambda>m. Inr [m])
               | Flights flight_json_list \<Rightarrow>
                   if flight_json_list = [] then Inr []
                   else bindE (getattr (other_attrs req) ''limit'') (\<lambda>limit.
                        bindE (slice_upto flight_json_list (or_val limit (VInt 1))) (\<lambda>chosen.
                          flight_responses req chosen)))
        else bindE (mock_flight d req) (\<lambda>m. Inr [m]))
       (\<lambda>flights_for_this_query.
          if flights_for_this_query = []
          then bindE (mock_flight d req) (\<lambda>m. Inr [m])
          else Inr flights_for_this_query)"

fun forward_queries ::
  "Miner \<Rightarrow> (kwargs \<Rightarrow> backend_result) \<Rightarrow> (nat \<Rightarrow> mock_draw) \<Rightarrow> nat
   \<Rightarrow> FlightSearchRequest list \<Rightarrow> error + FlightSearchResponse list list" where
  "forward_queries self backend draws i [] = Inr []"
| "forward_queries self backend draws i (req # rest) =
     bindE (forward_query self backend (draws i) req) (\<lambda>flights_for_this_query.
     bindE (forward_queries self backend draws (Suc i) rest) (\<lambda>more.
       Inr (flights_for_this_query # more)))"

definition Miner_forward ::
  "Miner \<Rightarrow> (kwargs \<Rightarrow> backend_result) \<Rightarrow> (nat \<Rightarrow> mock_draw) \<Rightarrow> FlightSearchBatchRequest
   \<Rightarrow> error + FlightSearchBatchResponse" where
  "Miner_forward self backend draws synapse =
     bindE (forward_queries self backend draws 0 (queries synapse)) (\<lambda>all_responses.
       Inr \<lparr>responses = all_responses\<rparr>)"

section \<open>The validator (neurons/validator.py)\<close>

subsection \<open>Validator.__init__\<close>

text \<open>
  One row of the airports file, with the three columns the code reads; \<open>skyId\<close> and
  \<open>entityId\<close> are the strings that \<^verbatim>\<open>str(...)\<close> makes of the row's values.
\<close>

record airport =
  entityType :: string
  skyId :: string
  entityId :: string

record Validator =
  API :: bool
  markets :: "string list"
  airports :: "airport list"
  batch_size :: int

text \<open>
  The arguments are what the constructor gets from outside: the configured
  \<^verbatim>\<open>batch_size\<close> if there is one, the \<^verbatim>\<open>MarketCode\<close> column of the markets file (an
  absent cell is \<open>None\<close>) and the rows of the airports file. A file that cannot be read is
  \<open>None\<close>: the \<^verbatim>\<open>except\<close> branch then sets the empty list.
\<close>

definition dropna :: "'a option list \<Rightarrow> 'a list" where
  "dropna col = List.map_filter (\<lambda>c. c) col"

definition Validator_init ::
  "int option \<Rightarrow> string option list option \<Rightarrow> airport list option \<Rightarrow> Validator" where
  "Validator_init config_batch_size markets_file airports_file =
     (let ms = (case markets_file of None \<Rightarrow> [] | Some col \<Rightarrow> dropna col);
          as = (case airports_file of
                  None \<Rightarrow> []
                | Some rows \<Rightarrow> filter (\<lambda>row. entityType row = ''AIRPORT'') rows)
      in \<lparr>API = False, markets = ms, airports = as,
          batch_size = min (int (length ms))
                           (case config_batch_size of None \<Rightarrow> 10 | Some b \<Rightarrow> b)\<rparr>)"

subsection \<open>Validator.forward, step 1: the batch of queries\<close>

text \<open>
  Randomness is an input. \<^verbatim>\<open>random.choice(xs)\<close> returns the element at some position
  and raises IndexError on the empty list; \<^verbatim>\<open>random.sample(xs, 2)\<close> returns the elements
  at two different positions, in either order, and raises ValueError when \<open>xs\<close> has fewer
  than two elements. A seed selects the position; every outcome the library can produce
  is the outcome of some seeds.
\<close>

definition random_choice :: "'a list \<Rightarrow> nat \<Rightarrow> error + 'a" where
  "random_choice xs seed =
     (if xs = [] then Inl IndexError else Inr (xs ! (seed mod length xs)))"

definition random_sample2 :: "'a list \<Rightarrow> nat \<Rightarrow> nat \<Rightarrow> error + ('a \<times> 'a)" where
  "random_sample2 xs seed1 seed2 =
     (if length xs < 2 then Inl ValueError
      else let i = seed1 mod length xs;
               k = seed2 mod (length xs - 1);
               j = (if k < i then k else k + 1)
           in Inr (xs ! i, xs ! j))"

record draw =
  market_seed :: nat
  origin_seed :: nat
  destination_seed :: nat
  random_date :: string

definition str_or_none :: "string option \<Rightarrow> pyval" where
  "str_or_none x = (case x of None \<Rightarrow> VNone | Some s \<Rightarrow> VStr s)"

definition int_or_none :: "int option \<Rightarrow> pyval" where
  "int_or_none x = (case x of None \<Rightarrow> VNone | Some n \<Rightarrow> VInt n)"

text \<open>
  The keyword arguments of the \<^verbatim>\<open>FlightSearchRequest(...)\<close> call of one iteration. With
  \<^verbatim>\<open>self.API\<close> set, six fields are copied from the incoming request, \<^verbatim>\<open>locale\<close> among
  them; otherwise only the date, the route and the market are passed.
\<close>

definition query_kwargs :: "Validator \<Rightarrow> draw \<Rightarrow> FlightSearchRequest \<Rightarrow> error + kwargs" where
  "query_kwargs self d synapse =
     bindE (random_choice (markets self) (market_seed d)) (\<lambda>mk.
     bindE (random_sample2 (airports self) (origin_seed d) (destination_seed d))
       (\<lambda>(origin, destination).
          if API self
          then bindE (getattr (other_attrs synapse) ''locale'') (\<lambda>locale.
                 Inr [(''date'', VStr (random_date d)),
                      (''origin'', VStr (skyId origin)),
                      (''originId'', VStr (entityId origin)),
                      (''destination'', VStr (skyId destination)),
                      (''destinationId'', VStr (entityId destination)),
                      (''cabinClass'', str_or_none (cabinClass synapse)),
                      (''adults'', int_or_none (adults synapse)),
                      (''children'', int_or_none (children synapse)),
                      (''infants'', int_or_none (infants synapse)),
                      (''locale'', locale),
                      (''currency'', str_or_none (currency synapse)),
                      (''market'', VStr mk)])
          else Inr [(''date'', VStr (random_date d)),
                    (''origin'', VStr (skyId origin)),
                    (''originId'', VStr (entityId origin)),
                    (''destination'', VStr (skyId destination)),
                    (''destinationId'', VStr (entityId destination)),
                    (''market'', VStr mk)]))"

text \<open>
  The loop \<^verbatim>\<open>for _ in range(self.batch_size)\<close>: \<open>i\<close> counts the iterations done, \<open>n\<close>
  those still to do.
\<close>

fun generate_queries ::
  "Validator \<Rightarrow> (nat \<Rightarrow> draw) \<Rightarrow> FlightSearchRequest \<Rightarrow> nat \<Rightarrow> nat
   \<Rightarrow> error + FlightSearchRequest list" where
  "generate_queries self draws synapse i 0 = Inr []"
| "generate_queries self draws synapse i (Suc n) =
     bindE (query_kwargs self (draws i) synapse) (\<lambda>kw.
     bindE (FlightSearchRequest_init kw) (\<lambda>q.
     bindE (generate_queries self draws synapse (Suc i) n) (\<lambda>more. Inr (q # more))))"

definition forward_batch ::
  "Validator \<Rightarrow> (nat \<Rightarrow> draw) \<Rightarrow> FlightSearchRequest \<Rightarrow> error + FlightSearchBatchRequest" where
  "forward_batch self draws synapse =
     bindE (generate_queries self draws synapse 0 (nat (batch_size self))) (\<lambda>qs.
       Inr \<lparr>queries = qs, dendrite = None\<rparr>)"

subsection \<open>Validator.forward, steps 3 to 5: collect, rank, reward, return\<close>

text \<open>Step 3: every offer of every position of every batch response, in that order.\<close>

definition collect :: "FlightSearchBatchResponse list \<Rightarrow> FlightSearchResponse list" where
  "collect batch_responses = concat (map (\<lambda>batch_resp. concat (responses batch_resp)) batch_responses)"

text \<open>
  Step 4 sorts with \<^verbatim>\<open>list.sort(key=lambda r: r.price)\<close>, an ascending stable sort.
\<close>

definition ranked :: "FlightSearchBatchResponse list \<Rightarrow> FlightSearchResponse list" where
  "ranked batch_responses = sort_key price (collect batch_responses)"

text \<open>
  The reward loop. Each iteration computes the profit, formats the log line
  \<^verbatim>\<open>f"Rewarding miner {resp.uid} with profit {profit}"\<close>, which reads \<^verbatim>\<open>resp.uid\<close>, and
  then calls \<^verbatim>\<open>self.backpropagate(resp, profit)\<close>. The method is the base class's; what it
  is called with is the reward applied. The result is the list of calls made, in order, and
  the exception that ended the loop, if one did.
\<close>

fun reward_loop ::
  "real \<Rightarrow> FlightSearchResponse list \<Rightarrow> (FlightSearchResponse \<times> real) list \<times> error option" where
  "reward_loop best_price [] = ([], None)"
| "reward_loop best_price (resp # rest) =
     (let profit = max 0 (best_price - price resp)
      in case getattr (r_other_attrs resp) ''uid'' of
           Inl e \<Rightarrow> ([], Some e)
         | Inr uid \<Rightarrow>
             (case reward_loop best_price rest of
                (calls, outcome) \<Rightarrow> ((resp, profit) # calls, outcome)))"

text \<open>
  The first component of the result is the list of rewards applied, which stay applied
  when a later line raises; the second is what the caller gets.
\<close>

definition forward_results ::
  "FlightSearchRequest \<Rightarrow> FlightSearchBatchResponse list
   \<Rightarrow> (FlightSearchResponse \<times> real) list \<times> (error + FlightSearchResponse list)" where
  "forward_results synapse batch_responses =
     (if collect batch_responses = [] then ([], Inr [])
      else let all_responses = ranked batch_responses;
               best_price = price (hd all_responses)
           in case reward_loop best_price all_responses of
                (calls, Some e) \<Rightarrow> (calls, Inl e)
              | (calls, None) \<Rightarrow>
                  (calls, bindE (getattr (other_attrs synapse) ''limit'') (\<lambda>limit.
                            slice_upto all_responses limit)))"

text \<open>
  The whole of \<^verbatim>\<open>forward\<close>. Sampling the peers and sending the batch (step 2) is the
  transport's work: \<open>dendrite_call\<close> stands for it and gives the batch responses received.
\<close>

definition Validator_forward ::
  "Validator \<Rightarrow> (nat \<Rightarrow> draw) \<Rightarrow> (FlightSearchBatchRequest \<Rightarrow> FlightSearchBatchResponse list)
   \<Rightarrow> FlightSearchRequest
   \<Rightarrow> (FlightSearchResponse \<times> real) list \<times> (error + FlightSearchResponse list)" where
  "Validator_forward self draws dendrite_call synapse =
     (case forward_batch self draws synapse of
        Inl e \<Rightarrow> ([], Inl e)
      | Inr batch \<Rightarrow> forward_results synapse (dendrite_call batch))"

section \<open>Example inputs\<close>

text \<open>
  Concrete inputs at which the theorems below are evaluated: offers that differ in price
  and carrier only, as the protocol class builds them, and the same carrying a \<^verbatim>\<open>uid\<close>;
  two batch responses holding three offers; a request with the protocol's default values
  and chosen further attributes; two airports, and fixed draws.
\<close>

definition example_offer :: "real \<Rightarrow> string \<Rightarrow> FlightSearchResponse" where
  "example_offer p c = \<lparr>r_market = ''US'', price = p, r_currency = ''USD'',
     departure_time = ''2025-06-01T08:00'', arrival_time = ''2025-06-01T20:00'',
     departure_city = ''JFK'', arrival_city = ''LHR'', stops = 0, carrier = c,
     duration_duration = 0.5, r_other_attrs = []\<rparr>"

definition example_offer_uid :: "real \<Rightarrow> string \<Rightarrow> int \<Rightarrow> FlightSearchResponse" where
  "example_offer_uid p c u = (example_offer p c)\<lparr>r_other_attrs := [(''uid'', VInt u)]\<rparr>"

definition example_responses :: "FlightSearchBatchResponse list" where
  "example_responses =
     [\<lparr>responses = [[example_offer 150 ''C''], [example_offer 100 ''A'']]\<rparr>,
      \<lparr>responses = [[example_offer 100 ''B'']]\<rparr>]"

definition example_query :: "(string \<times> pyval) list \<Rightarrow> FlightSearchRequest" where
  "example_query attrs = \<lparr>date = ''2025-06-01'', departure_airport_code = ''JFK'',
     arrival_airport_code = ''LHR'', cabinClass = Some ''Economy'', adults = Some 1,
     children = Some 0, infants = Some 0, market = ''US'', currency = Some ''USD'',
     other_attrs = attrs\<rparr>"

definition example_draws :: "nat \<Rightarrow> draw" where
  "example_draws i = \<lparr>market_seed = i, origin_seed = i, destination_seed = i,
     random_date = ''2025-06-01''\<rparr>"

definition example_mock_draws :: "nat \<Rightarrow> mock_draw" where
  "example_mock_draws i = \<lparr>uniform_price = 500, now_plus_5h = ''2025-06-01 13:00:00'',
     now_plus_10h = ''2025-06-01 18:00:00''\<rparr>"

definition example_airports :: "airport list" where
  "example_airports = [\<lparr>entityType = ''AIRPORT'', skyId = ''JFK'', entityId = ''95565058''\<rparr>,
     \<lparr>entityType = ''AIRPORT'', skyId = ''LHR'', entityId = ''95565050''\<rparr>]"


section \<open>Constructors of the protocol classes\<close>

lemma required_float_gt_absent:
  "map_of kw name = None \<Longrightarrow> required_float_gt kw name lo = Inl ValidationError"
  by (simp add: required_float_gt_def required_float_def bindE_def)

lemma required_str_absent:
  "map_of kw name = None \<Longrightarrow> required_str kw name = Inl ValidationError"
  by (simp add: required_str_def)

lemma required_str_err: "required_str kw n = Inl e \<Longrightarrow> e = ValidationError"
  by (auto simp: required_str_def split: option.splits pyval.splits)

lemma required_float_err: "required_float kw n = Inl e \<Longrightarrow> e = ValidationError"
  by (auto simp: required_float_def split: option.splits pyval.splits)

lemma required_int_ge_err: "required_int_ge kw n lo = Inl e \<Longrightarrow> e = ValidationError"
  by (auto simp: required_int_ge_def split: option.splits pyval.splits if_splits)

text \<open>A call that passes no \<^verbatim>\<open>duration_duration\<close> builds no FlightSearchResponse.\<close>

lemma FlightSearchResponse_init_needs_duration:
  "map_of kw ''duration_duration'' = None \<Longrightarrow>
   FlightSearchResponse_init kw = Inl ValidationError"
  unfolding FlightSearchResponse_init_def
  by (auto simp: bindE_def required_float_gt_absent split: sum.splits
           dest: required_str_err required_float_err required_int_ge_err)

text \<open>A call that passes no \<^verbatim>\<open>departure_airport_code\<close> builds no FlightSearchRequest.\<close>

lemma FlightSearchRequest_init_needs_departure:
  "map_of kw ''departure_airport_code'' = None \<Longrightarrow>
   FlightSearchRequest_init kw = Inl ValidationError"
  unfolding FlightSearchRequest_init_def
  by (auto simp: bindE_def required_str_absent split: sum.splits dest: required_str_err)

text \<open>What a validated response is known to satisfy: the two declared bounds, none on the price.\<close>

lemma FlightSearchResponse_init_bounds:
  "FlightSearchResponse_init kw = Inr r \<Longrightarrow> 0 \<le> stops r \<and> 0 < duration_duration r"
  unfolding FlightSearchResponse_init_def required_float_gt_def required_int_ge_def
  by (auto simp: bindE_def split: sum.splits option.splits pyval.splits if_splits)

lemma example_query_wellformed:
  "FlightSearchRequest_init
     [(''date'', VStr ''2025-06-01''), (''departure_airport_code'', VStr ''JFK''),
      (''arrival_airport_code'', VStr ''LHR'')] = Inr (example_query [])"
  by (simp add: FlightSearchRequest_init_def bindE_def required_str_def optional_literal_def
        optional_int_ge_def default_str_def optional_str_def example_query_def)

lemma negative_price_offer_wellformed:
  "FlightSearchResponse_init
     [(''market'', VStr ''US''), (''price'', VFloat (- 5)), (''currency'', VStr ''USD''),
      (''departure_time'', VStr ''2025-06-01T08:00''),
      (''arrival_time'', VStr ''2025-06-01T20:00''), (''departure_city'', VStr ''JFK''),
      (''arrival_city'', VStr ''LHR''), (''stops'', VInt 0), (''carrier'', VStr ''X''),
      (''duration_duration'', VFloat 0.5)] = Inr (example_offer (- 5) ''X'')"
  by (simp add: FlightSearchResponse_init_def bindE_def required_str_def required_float_def
        required_int_ge_def required_float_gt_def example_offer_def)

section \<open>Admission policy\<close>

lemma list_index_notin: "x \<notin> set ys \<Longrightarrow> list_index ys x = Inl ValueError"
  by (induction ys) (auto simp: bindE_def)

lemma list_index_in:
  "x \<in> set ys \<Longrightarrow> \<exists>i. list_index ys x = Inr i \<and> i < length ys \<and> ys ! i = x"
  by (induction ys) (auto simp: bindE_def)

text \<open>
  The position of the caller's hotkey is looked up before the registration test, so for an
  unregistered caller the lookup raises and the test is never reached: no input makes
  \<open>blacklist\<close> answer with the reason "Unrecognized hotkey".
\<close>

lemma blacklist_unknown_raises:
  "dendrite synapse = Some d \<Longrightarrow> hotkey d = Some hk \<Longrightarrow> hk \<notin> set (hotkeys self) \<Longrightarrow>
   blacklist self synapse = Inl ValueError"
  by (simp add: blacklist_def list_index_notin bindE_def)

lemma blacklist_never_unrecognized:
  "blacklist self synapse \<noteq> Inr (True, ''Unrecognized hotkey'')"
  by (auto simp: blacklist_def bindE_def split: option.splits sum.splits
           dest: list_index_notin)

lemma blacklist_no_permit:
  "dendrite synapse = Some d \<Longrightarrow> hotkey d = Some hk \<Longrightarrow>
   list_index (hotkeys self) hk = Inr uid \<Longrightarrow> force_validator_permit self \<Longrightarrow>
   uid < length (validator_permit self) \<Longrightarrow> \<not> validator_permit self ! uid \<Longrightarrow>
   blacklist self synapse = Inr (True, ''Non-validator hotkey'')"
  by (auto simp: blacklist_def bindE_def split: option.splits sum.splits
           dest: list_index_notin)

text \<open>
  Claim C3. A caller whose hotkey is unknown to the registry, with
  \<^verbatim>\<open>allow_non_registered\<close> off, should be rejected with the decision
  (True, "Unrecognized hotkey") and no error raised. The code raises instead: with the
  registry holding only "validator-1", a batch from the hotkey "stranger" makes
  \<open>blacklist\<close> end in ValueError.
\<close>

theorem C3_blacklist_unknown_hotkey_raises:
  "blacklist \<lparr>skyscanner_api_key = None, hotkeys = [''validator-1''],
              validator_permit = [True], allow_non_registered = False,
              force_validator_permit = False\<rparr>
             \<lparr>queries = [], dendrite = Some \<lparr>hotkey = Some ''stranger''\<rparr>\<rparr>
   = Inl ValueError"
  by (simp add: blacklist_def bindE_def)

section \<open>Fulfilment\<close>

text \<open>
  The fallback offer and the offer built from a backend entry are both constructed with the
  keyword \<^verbatim>\<open>duration_days\<close>, while the class requires \<^verbatim>\<open>duration_duration\<close>: neither is
  ever built, whatever the request carries.
\<close>

lemma mock_flight_raises: "\<exists>e. mock_flight d req = Inl e"
  unfolding mock_flight_def
  by (auto simp: bindE_def FlightSearchResponse_init_needs_duration split: sum.splits)

lemma flight_response_raises: "\<exists>e. flight_response req flight = Inl e"
  unfolding flight_response_def
  by (auto simp: bindE_def FlightSearchResponse_init_needs_duration split: sum.splits)

lemma flight_responses_Inr: "flight_responses req fs = Inr rs \<Longrightarrow> fs = [] \<and> rs = []"
  using flight_response_raises[of req "hd fs"]
  by (cases fs) (auto simp: bindE_def split: sum.splits)

lemma forward_query_raises: "\<exists>e. forward_query self backend d req = Inl e"
proof -
  obtain e where m: "mock_flight d req = Inl e"
    using mock_flight_raises by blast
  show ?thesis
    unfolding forward_query_def
    by (auto simp: bindE_def m split: sum.splits backend_result.splits
             dest: flight_responses_Inr)
qed

lemma forward_queries_raises:
  "qs \<noteq> [] \<Longrightarrow> \<exists>e. forward_queries self backend draws i qs = Inl e"
  using forward_query_raises[of self backend "draws i" "hd qs"]
  by (cases qs) (auto simp: bindE_def)

lemma Miner_forward_raises:
  "queries synapse \<noteq> [] \<Longrightarrow> \<exists>e. Miner_forward self backend draws synapse = Inl e"
  using forward_queries_raises[of "queries synapse" self backend draws 0]
  by (auto simp: Miner_forward_def bindE_def)

text \<open>So the miner answers a batch exactly when the batch is empty.\<close>

lemma Miner_forward_returns_iff:
  "(\<exists>r. Miner_forward self backend draws synapse = Inr r) \<longleftrightarrow> queries synapse = []"
proof (cases "queries synapse = []")
  case True
  then show ?thesis by (simp add: Miner_forward_def bindE_def)
next
  case False
  then show ?thesis
    using Miner_forward_raises[of synapse self backend draws] by auto
qed

text \<open>
  Claim C4. For a batch of N sub-queries whose pricing backend fails for every one, the
  miner should return N non-empty offer lists in order, each fallback offer with positive
  price and duration. The code returns nothing for a batch of three. Without an API key and
  with requests as the protocol class builds them, \<^verbatim>\<open>_mock_flight\<close> reads the undeclared
  attribute \<^verbatim>\<open>origin\<close> and raises AttributeError. With a key, a backend that raises a
  RequestException every time, and requests that do carry the route attributes, the
  fallback's constructor call raises ValidationError for want of \<^verbatim>\<open>duration_duration\<close>.
\<close>

theorem C4_fallback_batch_raises:
  "Miner_forward \<lparr>skyscanner_api_key = None, hotkeys = [], validator_permit = [],
                  allow_non_registered = True, force_validator_permit = False\<rparr>
     (\<lambda>params. RequestException) example_mock_draws
     \<lparr>queries = [example_query [], example_query [], example_query []], dendrite = None\<rparr>
   = Inl AttributeError
   \<and>
   Miner_forward \<lparr>skyscanner_api_key = Some ''key'', hotkeys = [], validator_permit = [],
                  allow_non_registered = True, force_validator_permit = False\<rparr>
     (\<lambda>params. RequestException) example_mock_draws
     \<lparr>queries = replicate 3 (example_query
          [(''origin'', VStr ''JFK''), (''originId'', VStr ''1''),
           (''destination'', VStr ''LHR''), (''destinationId'', VStr ''2'')]),
      dendrite = None\<rparr>
   = Inl ValidationError"
  by (simp add: Miner_forward_def forward_query_def mock_flight_def bindE_def getattr_def
        example_query_def truthy_str_def query_params_def FlightSearchResponse_init_def
        required_str_def required_float_def required_int_ge_def required_float_gt_def
        or_str_def numeral_3_eq_3)

section \<open>Query synthesis\<close>

text \<open>\<^verbatim>\<open>random.sample(xs, 2)\<close> as modelled draws two different positions.\<close>

lemma random_sample2_positions:
  assumes "random_sample2 xs s1 s2 = Inr (a, b)"
  shows "\<exists>i j. i \<noteq> j \<and> i < length xs \<and> j < length xs \<and> a = xs ! i \<and> b = xs ! j"
proof -
  have n: "2 \<le> length xs"
    using assms by (auto simp: random_sample2_def split: if_splits)
  define i where "i = s1 mod length xs"
  define k where "k = s2 mod (length xs - 1)"
  define j where "j = (if k < i then k else k + 1)"
  have "0 < length xs" "0 < length xs - 1"
    using n by linarith+
  then have "i < length xs" "k < length xs - 1"
    by (simp_all add: i_def k_def)
  moreover from this(2) have "j < length xs" "i \<noteq> j"
    by (auto simp: j_def)
  moreover have "a = xs ! i" "b = xs ! j"
    using assms n by (auto simp: random_sample2_def Let_def i_def j_def k_def)
  ultimately show ?thesis by blast
qed

lemma random_sample2_distinct:
  "distinct xs \<Longrightarrow> random_sample2 xs s1 s2 = Inr (a, b) \<Longrightarrow> a \<noteq> b"
  by (metis random_sample2_positions nth_eq_iff_index_eq)

text \<open>
  Neither branch of the loop body passes \<^verbatim>\<open>departure_airport_code\<close>, which the class
  requires: the first iteration of the loop raises.
\<close>

lemma query_kwargs_no_departure:
  "query_kwargs self d synapse = Inr kw \<Longrightarrow> map_of kw ''departure_airport_code'' = None"
  by (auto simp: query_kwargs_def bindE_def split: sum.splits if_splits prod.splits)

lemma generate_queries_raises:
  "\<exists>e. generate_queries self draws synapse i (Suc n) = Inl e"
  by (auto simp: bindE_def split: sum.splits
           dest!: query_kwargs_no_departure FlightSearchRequest_init_needs_departure)

lemma forward_batch_returns_iff:
  "(\<exists>b. forward_batch self draws synapse = Inr b) \<longleftrightarrow> batch_size self \<le> 0"
proof (cases "nat (batch_size self)")
  case 0
  then show ?thesis by (auto simp: forward_batch_def bindE_def)
next
  case (Suc n)
  then show ?thesis
    using generate_queries_raises[of self draws synapse 0 n]
    by (auto simp: forward_batch_def bindE_def)
qed

text \<open>With no market the batch size is zero and the batch is empty, without an error.\<close>

lemma forward_batch_no_markets:
  "forward_batch (Validator_init c None a) draws synapse = Inr \<lparr>queries = [], dendrite = None\<rparr>"
  by (simp add: forward_batch_def Validator_init_def bindE_def)

text \<open>With a market and fewer than two airports, \<^verbatim>\<open>random.sample\<close> raises.\<close>

lemma forward_batch_no_airports:
  assumes "markets self \<noteq> []" and "0 < batch_size self" and "length (airports self) < 2"
  shows "forward_batch self draws synapse = Inl ValueError"
proof -
  obtain n where n: "nat (batch_size self) = Suc n"
    using assms(2) by (cases "nat (batch_size self)") auto
  show ?thesis
    using assms
    by (simp add: forward_batch_def n bindE_def query_kwargs_def random_choice_def
          random_sample2_def)
qed

text \<open>
  Claim C6. With an empty market set or an empty airport set, query synthesis should give
  an empty batch and the caller an empty result, with no exception. The code raises for the
  empty airport set: with one market, no airport and the configured batch size 10, the
  batch size is 1, and the first iteration ends in the ValueError of
  \<^verbatim>\<open>random.sample(self.airports, 2)\<close>, which the caller of \<^verbatim>\<open>forward\<close> gets.
\<close>

theorem C6_empty_airports_raises:
  "Validator_forward (Validator_init (Some 10) (Some [Some ''US'']) (Some []))
      example_draws (\<lambda>batch. []) (example_query [(''limit'', VInt 3)])
   = ([], Inl ValueError)"
  by (simp add: Validator_forward_def forward_batch_def Validator_init_def dropna_def
        List.map_filter_simps query_kwargs_def random_choice_def random_sample2_def bindE_def
        example_draws_def)

text \<open>
  Claim C8. With non-empty markets and at least two airports, synthesis should produce a
  batch of min(|markets|, configured maximum) sub-queries, each with different origin and
  destination. The code produces no batch: with one market, two airports and the
  configured batch size 10, the first \<^verbatim>\<open>FlightSearchRequest(...)\<close> call passes
  \<^verbatim>\<open>origin\<close> and \<^verbatim>\<open>destination\<close> but not the required \<^verbatim>\<open>departure_airport_code\<close> and
  \<^verbatim>\<open>arrival_airport_code\<close>, and \<^verbatim>\<open>forward\<close> ends in ValidationError.
\<close>

theorem C8_synthesis_raises:
  "Validator_forward (Validator_init (Some 10) (Some [Some ''US'']) (Some example_airports))
      example_draws (\<lambda>batch. []) (example_query [(''limit'', VInt 3)])
   = ([], Inl ValidationError)"
  by (simp add: Validator_forward_def forward_batch_def Validator_init_def dropna_def
        List.map_filter_simps query_kwargs_def random_choice_def random_sample2_def bindE_def
        example_draws_def example_airports_def FlightSearchRequest_init_def required_str_def
        Let_def)

text \<open>
  Claim C10. The constructor sets \<^verbatim>\<open>self.API\<close> to False, so for a validator it has built
  the keyword arguments of every sub-query, and with them the whole batch, are the same for
  any two incoming requests under the same draws. The keyword arguments name none of cabin
  class, passenger counts, locale and currency, and a request constructed without those
  keywords holds the protocol's defaults (the protocol declares no locale).
\<close>

theorem C10_batch_independent_of_intent:
  "query_kwargs (Validator_init c m a) d s1 = query_kwargs (Validator_init c m a) d s2
   \<and> forward_batch (Validator_init c m a) draws s1 =
       forward_batch (Validator_init c m a) draws s2
   \<and> (query_kwargs (Validator_init c m a) d s1 = Inr kw \<longrightarrow>
        (\<forall>k \<in> {''cabinClass'', ''adults'', ''children'', ''infants'', ''locale'', ''currency''}.
           map_of kw k = None))
   \<and> ((\<forall>k \<in> {''cabinClass'', ''adults'', ''children'', ''infants'', ''currency''}.
           map_of kw' k = None) \<and> FlightSearchRequest_init kw' = Inr q \<longrightarrow>
        cabinClass q = Some ''Economy'' \<and> adults q = Some 1 \<and> children q = Some 0 \<and>
        infants q = Some 0 \<and> currency q = Some ''USD'')"
proof -
  have api: "API (Validator_init c m a) = False"
    by (simp add: Validator_init_def Let_def)
  have k: "query_kwargs (Validator_init c m a) d' s = query_kwargs (Validator_init c m a) d' s1"
    for d' s
    by (simp add: query_kwargs_def api)
  have g: "generate_queries (Validator_init c m a) draws s1 i n =
           generate_queries (Validator_init c m a) draws s2 i n" for i n
    by (induction n arbitrary: i) (simp_all add: k[of _ s2])
  have 1: "query_kwargs (Validator_init c m a) d s1 = query_kwargs (Validator_init c m a) d s2"
    by (simp add: k[of _ s2])
  have 2: "forward_batch (Validator_init c m a) draws s1 =
           forward_batch (Validator_init c m a) draws s2"
    by (simp add: forward_batch_def g)
  have 3: "query_kwargs (Validator_init c m a) d s1 = Inr kw \<longrightarrow>
        (\<forall>k \<in> {''cabinClass'', ''adults'', ''children'', ''infants'', ''locale'', ''currency''}.
           map_of kw k = None)"
    by (auto simp: query_kwargs_def api bindE_def split: sum.splits prod.splits)
  have 4: "(\<forall>k \<in> {''cabinClass'', ''adults'', ''children'', ''infants'', ''currency''}.
           map_of kw' k = None) \<and> FlightSearchRequest_init kw' = Inr q \<longrightarrow>
        cabinClass q = Some ''Economy'' \<and> adults q = Some 1 \<and> children q = Some 0 \<and>
        infants q = Some 0 \<and> currency q = Some ''USD''"
    by (auto simp: FlightSearchRequest_init_def bindE_def optional_literal_def
          optional_int_ge_def optional_str_def split: sum.splits)
  show ?thesis using 1 2 3 4 by blast
qed

theorem C10_batch_independent_of_intent_witness:
  "example_query [] \<noteq> (example_query [])\<lparr>cabinClass := Some ''Business'', adults := Some 3\<rparr> \<and>
   query_kwargs (Validator_init (Some 10) (Some [Some ''US'']) (Some example_airports))
      (example_draws 0)
      ((example_query [])\<lparr>cabinClass := Some ''Business'', adults := Some 3\<rparr>) =
     Inr [(''date'', VStr ''2025-06-01''), (''origin'', VStr ''JFK''),
          (''originId'', VStr ''95565058''), (''destination'', VStr ''LHR''),
          (''destinationId'', VStr ''95565050''), (''market'', VStr ''US'')] \<and>
   map_of [(''date'', VStr ''2025-06-01''), (''origin'', VStr ''JFK''),
           (''originId'', VStr ''95565058''), (''destination'', VStr ''LHR''),
           (''destinationId'', VStr ''95565050''), (''market'', VStr ''US'')]
          ''cabinClass'' = None \<and>
   FlightSearchRequest_init
     [(''date'', VStr ''2025-06-01''), (''departure_airport_code'', VStr ''JFK''),
      (''arrival_airport_code'', VStr ''LHR'')] = Inr (example_query []) \<and>
   cabinClass (example_query []) = Some ''Economy'' \<and> adults (example_query []) = Some 1 \<and>
   currency (example_query []) = Some ''USD''"
proof -
  have k: "query_kwargs (Validator_init (Some 10) (Some [Some ''US'']) (Some example_airports))
      (example_draws 0) (example_query []) =
     Inr [(''date'', VStr ''2025-06-01''), (''origin'', VStr ''JFK''),
          (''originId'', VStr ''95565058''), (''destination'', VStr ''LHR''),
          (''destinationId'', VStr ''95565050''), (''market'', VStr ''US'')]"
    by (simp add: query_kwargs_def Validator_init_def dropna_def List.map_filter_simps
          random_choice_def random_sample2_def bindE_def example_draws_def
          example_airports_def Let_def)
  have n: "\<forall>k \<in> {''cabinClass'', ''adults'', ''children'', ''infants'', ''currency''}.
        map_of [(''date'', VStr ''2025-06-01''), (''departure_airport_code'', VStr ''JFK''),
                (''arrival_airport_code'', VStr ''LHR'')] k = None"
    by simp
  have d: "example_query [] \<noteq>
           (example_query [])\<lparr>cabinClass := Some ''Business'', adults := Some 3\<rparr>"
    by (simp add: example_query_def)
  show ?thesis
    using C10_batch_independent_of_intent
        [where c = "Some 10" and m = "Some [Some ''US'']" and a = "Some example_airports"
           and d = "example_draws 0" and ?s1.0 = "example_query []"
           and ?s2.0 = "(example_query [])\<lparr>cabinClass := Some ''Business'', adults := Some 3\<rparr>"
           and kw = "[(''date'', VStr ''2025-06-01''), (''origin'', VStr ''JFK''),
                      (''originId'', VStr ''95565058''), (''destination'', VStr ''LHR''),
                      (''destinationId'', VStr ''95565050''), (''market'', VStr ''US'')]"
           and kw' = "[(''date'', VStr ''2025-06-01''),
                       (''departure_airport_code'', VStr ''JFK''),
                       (''arrival_airport_code'', VStr ''LHR'')]"
           and q = "example_query []"]
        k example_query_wellformed n d
    by simp
qed

section \<open>Collecting, ranking, rewarding\<close>

lemma sorted_hd_le: "sorted (map f ys) \<Longrightarrow> y \<in> set ys \<Longrightarrow> f (hd ys) \<le> f y"
  by (cases ys) auto

lemma hd_sort_key_le: "x \<in> set xs \<Longrightarrow> f (hd (sort_key f xs)) \<le> f x"
  by (rule sorted_hd_le) simp_all

lemma example_ranked:
  "ranked example_responses =
     [example_offer 100 ''A'', example_offer 100 ''B'', example_offer 150 ''C'']"
  by (simp add: ranked_def collect_def example_responses_def example_offer_def)

text \<open>
  An offer as the protocol class builds it carries no \<^verbatim>\<open>uid\<close>, so the first iteration of
  the reward loop raises before it rewards anything.
\<close>

lemma reward_loop_no_uid:
  "r_other_attrs resp = [] \<Longrightarrow> reward_loop best_price (resp # rest) = ([], Some AttributeError)"
  by (simp add: getattr_def)

lemma forward_results_protocol_offers:
  assumes "collect brs \<noteq> []" and "\<forall>r \<in> set (collect brs). r_other_attrs r = []"
  shows "forward_results synapse brs = ([], Inl AttributeError)"
proof -
  have "set (ranked brs) = set (collect brs)"
    by (simp add: ranked_def)
  then have "ranked brs \<noteq> []"
    using assms(1) by (metis set_empty)
  then obtain resp rest where r: "ranked brs = resp # rest"
    by (cases "ranked brs") auto
  then have "resp \<in> set (collect brs)"
    by (metis list.set_intros(1) ranked_def set_sort)
  then have "r_other_attrs resp = []"
    using assms(2) by blast
  then show ?thesis
    using assms(1) by (simp add: forward_results_def r getattr_def)
qed

text \<open>
  Were every offer to carry a \<^verbatim>\<open>uid\<close>, the loop would reward each offer, in ranked order,
  with max(0, best price - price), which is 0 for every offer since none is cheaper than
  the first.
\<close>

lemma reward_loop_all_uid:
  "\<forall>r \<in> set xs. map_of (r_other_attrs r) ''uid'' \<noteq> None \<Longrightarrow>
   reward_loop b xs = (map (\<lambda>r. (r, max 0 (b - price r))) xs, None)"
  by (induction xs) (auto simp: getattr_def)

lemma all_profits_zero:
  assumes "collect brs \<noteq> []"
  shows "\<forall>(resp, profit) \<in> set (fst (forward_results synapse brs)).
           profit = max 0 (price (hd (ranked brs)) - price resp) \<and> profit = 0"
proof -
  have le: "\<And>x. x \<in> set (ranked brs) \<Longrightarrow> price (hd (ranked brs)) \<le> price x"
    using hd_sort_key_le[of _ "collect brs" price] by (simp add: ranked_def)
  have sub: "(r, p) \<in> set (fst (reward_loop b xs)) \<Longrightarrow> r \<in> set xs \<and> p = max 0 (b - price r)"
    for r p b xs
    by (induction xs) (auto simp: Let_def split: sum.splits prod.splits)
  have "fst (forward_results synapse brs) =
        fst (reward_loop (price (hd (ranked brs))) (ranked brs))"
    using assms
    by (auto simp: forward_results_def Let_def split: prod.splits option.splits)
  then show ?thesis
    using sub le by (fastforce simp: max_def)
qed

text \<open>
  Claim C1. For every non-empty ranked offer list the reward applied for each offer should
  be max(0, best price - price). The code applies no reward to offers as the protocol
  class builds them: for the three offers priced 150, 100 and 100 the first iteration of
  the reward loop reads \<^verbatim>\<open>resp.uid\<close>, which \<^verbatim>\<open>FlightSearchResponse\<close> does not declare, and
  \<^verbatim>\<open>forward\<close> ends in AttributeError with no call of \<^verbatim>\<open>backpropagate\<close> made.
\<close>

theorem C1_reward_loop_raises_before_first_reward:
  "forward_results (example_query []) example_responses = ([], Inl AttributeError)"
  by (simp add: forward_results_def example_ranked getattr_def)
     (simp add: collect_def example_responses_def example_offer_def)

text \<open>
  Claim C2, as stated: offers with price at most 0, duration at most 0 or negative stops
  are discarded before ranking, so every ranked offer has positive price. The code discards
  nothing: an offer with price -5, which the protocol class accepts, is ranked.
\<close>

theorem C2_negative_price_offer_is_ranked:
  "example_offer (- 5) ''X'' \<in> set (ranked [\<lparr>responses = [[example_offer (- 5) ''X'']]\<rparr>])
   \<and> \<not> 0 < price (example_offer (- 5) ''X'')"
  by (simp add: ranked_def collect_def example_offer_def)

text \<open>
  Claim C2, amended: ranking discards no offer. For every collection of batch responses the
  ranked output holds exactly the collected offers, each as often as it was collected, and
  ranking is defined on every input.
\<close>

theorem C2_ranking_keeps_every_offer:
  "mset (ranked brs) = mset (collect brs) \<and> set (ranked brs) = set (collect brs)
   \<and> length (ranked brs) = length (collect brs)"
  by (simp add: ranked_def)


text \<open>
  With no batch response the steps after the dispatch apply no reward and return the empty
  list; when the batch was built and nothing comes back, so does \<^verbatim>\<open>forward\<close>.
\<close>

lemma forward_results_no_responses:
  "forward_results synapse [] = ([], Inr [])"
  by (simp add: forward_results_def collect_def)

lemma Validator_forward_no_responses:
  "forward_batch self draws synapse = Inr batch \<Longrightarrow> dendrite_call batch = [] \<Longrightarrow>
   Validator_forward self draws dendrite_call synapse = ([], Inr [])"
  by (simp add: Validator_forward_def forward_results_def collect_def)

text \<open>
  But the batch is built only when the batch size is not positive, and the batch size is
  also the number of peers sampled: a cycle that samples a peer has raised before it
  dispatches.
\<close>

lemma Validator_forward_raises_before_dispatch:
  assumes "0 < batch_size self"
  shows "\<exists>e. Validator_forward self draws dendrite_call synapse = ([], Inl e)"
proof -
  have "\<not> (\<exists>b. forward_batch self draws synapse = Inr b)"
    using assms forward_batch_returns_iff[of self draws synapse] by simp
  then obtain e where "forward_batch self draws synapse = Inl e"
    by (cases "forward_batch self draws synapse") auto
  then show ?thesis
    by (simp add: Validator_forward_def)
qed

text \<open>
  Claim C7. When none of the sampled peers responds, the whole request cycle should return
  the empty list with no exception. With five markets, two airports and the configured
  batch size 5, five peers would be sampled; with a dispatcher that yields no batch
  response \<^verbatim>\<open>forward\<close> ends in the ValidationError of the first
  \<^verbatim>\<open>FlightSearchRequest(...)\<close> call of step 1.
\<close>

theorem C7_cycle_with_silent_peers_raises:
  "Validator_forward
     (Validator_init (Some 5)
        (Some [Some ''US'', Some ''GB'', Some ''DE'', Some ''FR'', Some ''ES''])
        (Some example_airports))
     example_draws (\<lambda>batch. []) (example_query [])
   = ([], Inl ValidationError)"
proof -
  have n: "nat (batch_size (Validator_init (Some 5)
        (Some [Some ''US'', Some ''GB'', Some ''DE'', Some ''FR'', Some ''ES''])
        (Some example_airports))) = Suc 4"
    by (simp add: Validator_init_def dropna_def List.map_filter_simps)
  obtain kw where k: "query_kwargs (Validator_init (Some 5)
        (Some [Some ''US'', Some ''GB'', Some ''DE'', Some ''FR'', Some ''ES''])
        (Some example_airports)) (example_draws 0) (example_query []) = Inr kw"
    by (simp add: query_kwargs_def Validator_init_def dropna_def List.map_filter_simps
          random_choice_def random_sample2_def bindE_def example_draws_def
          example_airports_def Let_def)
  have i: "FlightSearchRequest_init kw = Inl ValidationError"
    using k by (intro FlightSearchRequest_init_needs_departure query_kwargs_no_departure)
  have g: "generate_queries (Validator_init (Some 5)
        (Some [Some ''US'', Some ''GB'', Some ''DE'', Some ''FR'', Some ''ES''])
        (Some example_airports)) example_draws (example_query []) 0 (Suc 4)
      = Inl ValidationError"
    by (subst generate_queries.simps(2)) (simp add: k i bindE_def)
  have "forward_batch (Validator_init (Some 5)
        (Some [Some ''US'', Some ''GB'', Some ''DE'', Some ''FR'', Some ''ES''])
        (Some example_airports)) example_draws (example_query []) = Inl ValidationError"
    unfolding forward_batch_def n g by (simp add: bindE_def)
  then show ?thesis
    by (simp add: Validator_forward_def)
qed

text \<open>
  The last line of \<^verbatim>\<open>forward\<close> reads \<^verbatim>\<open>synapse.limit\<close>. A request as the protocol class
  builds it carries no limit, so the line raises whenever it is reached.
\<close>

lemma reward_loop_error:
  "reward_loop b xs = (calls, Some e) \<Longrightarrow> e = AttributeError"
  by (induction xs arbitrary: calls)
     (auto simp: getattr_def Let_def split: option.splits prod.splits)

lemma no_limit_raises:
  "other_attrs synapse = [] \<Longrightarrow> collect brs \<noteq> [] \<Longrightarrow>
   \<exists>calls. forward_results synapse brs = (calls, Inl AttributeError)"
  by (auto simp: forward_results_def bindE_def getattr_def Let_def
           split: prod.splits option.splits dest: reward_loop_error)

lemma FlightSearchRequest_init_no_limit:
  "FlightSearchRequest_init kw = Inr q \<Longrightarrow> getattr (other_attrs q) ''limit'' = Inl AttributeError"
  by (auto simp: FlightSearchRequest_init_def bindE_def getattr_def split: sum.splits)

text \<open>
  Were the request to carry a limit \<open>m\<close> and every offer a \<^verbatim>\<open>uid\<close>, the caller would get
  the first \<open>m\<close> ranked offers.
\<close>

lemma limit_and_uid_give_first_ranked:
  assumes "getattr (other_attrs synapse) ''limit'' = Inr (VInt (int m))"
    and "\<forall>r \<in> set (collect brs). map_of (r_other_attrs r) ''uid'' \<noteq> None"
  shows "snd (forward_results synapse brs) = Inr (take m (ranked brs))"
proof -
  have "\<forall>r \<in> set (ranked brs). map_of (r_other_attrs r) ''uid'' \<noteq> None"
    using assms(2) by (simp add: ranked_def)
  then show ?thesis
    using assms(1) reward_loop_all_uid[of "ranked brs" "price (hd (ranked brs))"]
    by (auto simp: forward_results_def Let_def bindE_def slice_upto_def py_take_def ranked_def)
qed

text \<open>
  Claim C9. For an incoming request with result limit M the caller should get the first M
  ranked offers. The code returns them for no request that the protocol class builds.
  With such a request and one offer as the class builds it, the reward loop ends
  \<^verbatim>\<open>forward\<close> in AttributeError at \<^verbatim>\<open>resp.uid\<close>. With the same request and an offer that
  does carry a \<^verbatim>\<open>uid\<close>, the reward is applied and the last line ends \<^verbatim>\<open>forward\<close> in
  AttributeError at \<^verbatim>\<open>synapse.limit\<close>, which \<^verbatim>\<open>FlightSearchRequest\<close> does not declare.
\<close>

theorem C9_return_line_raises:
  "forward_results (example_query []) [\<lparr>responses = [[example_offer 100 ''A'']]\<rparr>]
   = ([], Inl AttributeError)
   \<and>
   forward_results (example_query []) [\<lparr>responses = [[example_offer_uid 100 ''A'' 7]]\<rparr>]
   = ([(example_offer_uid 100 ''A'' 7, 0)], Inl AttributeError)"
  by (simp add: forward_results_def ranked_def collect_def getattr_def bindE_def
        example_query_def example_offer_def example_offer_uid_def)

end
